theory Spec2Isabelle
  imports Main
begin

section \<open>Python values and exceptions\<close>

text \<open>
  The values that travel through \<^verbatim>\<open>client.py\<close>: what \<^verbatim>\<open>response.json()\<close> returns, what
  is put into the request dictionaries, and what is stored in \<^verbatim>\<open>self.session_id\<close>.
  Python's \<^verbatim>\<open>None\<close> is \<open>JNull\<close>. A dictionary is an association list read with
  \<open>map_of\<close>. Numbers are Python ints; JSON numbers with a fraction or an exponent
  (Python floats) are not part of the model.
\<close>

datatype json = JNull | JBool bool | JInt int | JStr string
  | JArr "json list" | JObj "(string \<times> json) list"

text \<open>
  The exceptions that can leave the client. \<open>ServerError\<close> is the one class the
  module defines; its argument is the message it was raised with. The others are
  Python's own: \<open>KeyError\<close> and \<open>TypeError\<close> from subscripting, \<open>AttributeError\<close> from
  \<^verbatim>\<open>None.encrypt\<close>, \<open>ValueError\<close> from \<^verbatim>\<open>response.json()\<close> and from a non-ASCII argument
  of \<^verbatim>\<open>b64decode\<close>, \<open>BinasciiError\<close> from malformed base64. \<open>Raised\<close> stands for
  whatever the collaborators (\<^verbatim>\<open>requests\<close>, \<^verbatim>\<open>crypto\<close>) raise.
\<close>

datatype exn = ServerError json | KeyError string | TypeError | AttributeError
  | ValueError | BinasciiError | Raised string

text \<open>Truth value testing, as in \<^verbatim>\<open>self.session_id and ...\<close>.\<close>

fun truthy :: "json \<Rightarrow> bool" where
  "truthy JNull = False"
| "truthy (JBool b) = b"
| "truthy (JInt n) = (n \<noteq> 0)"
| "truthy (JStr s) = (s \<noteq> [])"
| "truthy (JArr xs) = (xs \<noteq> [])"
| "truthy (JObj kvs) = (kvs \<noteq> [])"

lemma size_map_of:
  "map_of kvs k = Some v \<Longrightarrow> size v < Suc (size_list (size_prod (\<lambda>_. 0) size) kvs)"
  by (induction kvs) (auto split: if_splits)

lemma size_member: "a \<in> set xs \<Longrightarrow> size a < Suc (size_list size xs)"
  by (induction xs) auto

lemma size_zip_fst: "(a, b) \<in> set (zip xs ys) \<Longrightarrow> size a < Suc (size_list size xs)"
  by (rule size_member) (rule set_zip_leftD)

text \<open>
  Python's \<^verbatim>\<open>==\<close> on these values: \<^verbatim>\<open>True == 1\<close> and \<^verbatim>\<open>False == 0\<close> hold, lists are
  compared element by element, dictionaries key by key whatever the order.
\<close>

function py_eq :: "json \<Rightarrow> json \<Rightarrow> bool" where
  "py_eq JNull y = (y = JNull)"
| "py_eq (JBool a) y =
     (case y of JBool b \<Rightarrow> a = b | JInt n \<Rightarrow> (if a then 1 else 0) = n | _ \<Rightarrow> False)"
| "py_eq (JInt m) y =
     (case y of JBool b \<Rightarrow> m = (if b then 1 else 0) | JInt n \<Rightarrow> m = n | _ \<Rightarrow> False)"
| "py_eq (JStr s) y = (y = JStr s)"
| "py_eq (JArr xs) y =
     (case y of
        JArr ys \<Rightarrow> length xs = length ys \<and> list_all (\<lambda>(a, b). py_eq a b) (zip xs ys)
      | _ \<Rightarrow> False)"
| "py_eq (JObj kvs) y =
     (case y of
        JObj kws \<Rightarrow>
          list_all
            (\<lambda>k. case map_of kvs k of
                    None \<Rightarrow> False
                  | Some a \<Rightarrow> (case map_of kws k of None \<Rightarrow> False | Some b \<Rightarrow> py_eq a b))
            (map fst kvs @ map fst kws)
      | _ \<Rightarrow> False)"
  by pat_completeness auto
termination
  by (relation "measure (\<lambda>(x, y). size x)") (auto dest: size_map_of size_zip_fst)

text \<open>\<^verbatim>\<open>v[k]\<close> with a string key: only a dictionary can be subscripted that way.\<close>

fun subscript :: "json \<Rightarrow> string \<Rightarrow> exn + json" where
  "subscript (JObj kvs) k = (case map_of kvs k of None \<Rightarrow> Inl (KeyError k) | Some v \<Rightarrow> Inr v)"
| "subscript _ k = Inl TypeError"

text \<open>\<^verbatim>\<open>'{}'.format(n)\<close> for an int: its decimal digits.\<close>

fun str_nat :: "nat \<Rightarrow> string" where
  "str_nat n =
     (if n < 10 then [char_of (48 + n)] else str_nat (n div 10) @ [char_of (48 + n mod 10)])"

declare str_nat.simps [simp del]

definition str_int :: "int \<Rightarrow> string" where
  "str_int i = (if i < 0 then CHR ''-'' # str_nat (nat (- i)) else str_nat (nat i))"

section \<open>base64.b64decode\<close>

text \<open>
  The standard library's \<^verbatim>\<open>b64decode(s)\<close> with its default \<^verbatim>\<open>validate=False\<close>, which is
  CPython's \<^verbatim>\<open>binascii.a2b_base64\<close>: characters outside the alphabet are skipped, a
  pad character ends the input once the current quad holds at least two digits and the
  pads complete it, and input that ends inside a quad is an error.
\<close>

definition b64_value :: "char \<Rightarrow> nat option" where
  "b64_value ch =
     (let n = (of_char ch :: nat) in
      if 65 \<le> n \<and> n \<le> 90 then Some (n - 65)
      else if 97 \<le> n \<and> n \<le> 122 then Some (n - 71)
      else if 48 \<le> n \<and> n \<le> 57 then Some (n + 4)
      else if n = 43 then Some 62
      else if n = 47 then Some 63
      else None)"

fun a2b_loop :: "nat \<Rightarrow> nat \<Rightarrow> nat \<Rightarrow> string \<Rightarrow> string \<Rightarrow> exn + string" where
  "a2b_loop quad_pos leftchar pads out [] =
     (if quad_pos \<noteq> 0 then Inl BinasciiError else Inr out)"
| "a2b_loop quad_pos leftchar pads out (ch # rest) =
     (if ch = CHR ''='' then
        (if 2 \<le> quad_pos \<and> 4 \<le> quad_pos + (pads + 1) then Inr out
         else a2b_loop quad_pos leftchar (if 2 \<le> quad_pos then pads + 1 else pads) out rest)
      else
        (case b64_value ch of
           None \<Rightarrow> a2b_loop quad_pos leftchar pads out rest
         | Some v \<Rightarrow>
             if quad_pos = 0 then a2b_loop 1 v 0 out rest
             else if quad_pos = 1 then
               a2b_loop 2 (v mod 16) 0 (out @ [char_of (leftchar * 4 + v div 16)]) rest
             else if quad_pos = 2 then
               a2b_loop 3 (v mod 4) 0 (out @ [char_of (leftchar * 16 + v div 4)]) rest
             else a2b_loop 0 0 0 (out @ [char_of (leftchar * 64 + v)]) rest))"

definition a2b_base64 :: "string \<Rightarrow> exn + string" where
  "a2b_base64 s = a2b_loop 0 0 0 [] s"

text \<open>
  A \<^verbatim>\<open>str\<close> argument is encoded as ASCII first (\<open>ValueError\<close> when it cannot be); a
  value that is neither \<^verbatim>\<open>str\<close> nor bytes-like is a \<open>TypeError\<close>.
\<close>

fun b64decode :: "json \<Rightarrow> exn + string" where
  "b64decode (JStr s) =
     (if list_ex (\<lambda>ch. 128 \<le> (of_char ch :: nat)) s then Inl ValueError else a2b_base64 s)"
| "b64decode _ = Inl TypeError"

section \<open>The collaborators\<close>

text \<open>
  What \<^verbatim>\<open>requests.post\<close> returns: the fields the client reads. \<open>body\<close> is the result of
  \<^verbatim>\<open>response.json()\<close>, \<open>None\<close> when the body is not JSON and the call raises.
\<close>

record response =
  status_code :: int
  reason :: string
  body :: "json option"

definition response_json :: "response \<Rightarrow> exn + json" where
  "response_json r = (case body r of None \<Rightarrow> Inl ValueError | Some b \<Rightarrow> Inr b)"

text \<open>
  The network is a parameter: given the calls of \<^verbatim>\<open>requests.post\<close> made so far and the
  present one (URL and JSON payload), it raises or answers. The list of calls is the
  only part of the world the client changes.
\<close>

type_synonym request = "string \<times> json"

type_synonym transport = "request list \<Rightarrow> request \<Rightarrow> exn + response"

text \<open>
  Module \<^verbatim>\<open>crypto\<close> is imported by \<^verbatim>\<open>client.py\<close> and is not among the sources, so its
  two classes are a parameter: \<open>rsa_public\<close> is \<^verbatim>\<open>RSASucker().public\<close>, \<open>rsa_decrypt\<close> is
  \<^verbatim>\<open>RSASucker.decrypt(data, fields)\<close>, \<open>aes_new\<close> is the constructor
  \<^verbatim>\<open>AESSucker(key, iv)\<close> and \<open>aes_encrypt\<close> is \<^verbatim>\<open>AESSucker.encrypt(data)\<close>; \<open>'a\<close> is the
  type of cipher objects. Each may raise.
\<close>

record 'a crypto =
  rsa_public :: json
  rsa_decrypt :: "json \<Rightarrow> string list \<Rightarrow> exn + json"
  aes_new :: "json \<Rightarrow> json \<Rightarrow> exn + 'a"
  aes_encrypt :: "'a \<Rightarrow> json \<Rightarrow> exn + json"

section \<open>The client\<close>

text \<open>
  The attributes of \<^verbatim>\<open>Client\<close> (\<^verbatim>\<open>self.rsa\<close> is the \<open>crypto\<close> parameter). \<open>aes\<close> and
  \<open>secret\<close> are \<open>None\<close> until set.
\<close>

record 'a client =
  base_url :: string
  session_id :: json
  aes :: "'a option"
  secret :: "string option"
  use_encryption :: bool
  use_verification :: bool

definition init :: "string \<Rightarrow> bool \<Rightarrow> bool \<Rightarrow> 'a client" where
  "init url enc ver =
     \<lparr>base_url = url, session_id = JNull, aes = None, secret = None,
      use_encryption = enc, use_verification = ver\<rparr>"

definition transport_message :: "response \<Rightarrow> json" where
  "transport_message r =
     JStr (''HTTP Response error: '' @ str_int (status_code r) @ '' '' @ reason r)"

definition error_code :: "response \<Rightarrow> exn + json" where
  "error_code r =
     (case response_json r of Inl e \<Rightarrow> Inl e
      | Inr b \<Rightarrow> (case subscript b ''errorDto'' of Inl e \<Rightarrow> Inl e
                 | Inr d \<Rightarrow> subscript d ''code''))"

definition error_message :: "response \<Rightarrow> exn + json" where
  "error_message r =
     (case response_json r of Inl e \<Rightarrow> Inl e
      | Inr b \<Rightarrow> (case subscript b ''errorDto'' of Inl e \<Rightarrow> Inl e
                 | Inr d \<Rightarrow> subscript d ''message''))"

definition response_data :: "response \<Rightarrow> exn + json" where
  "response_data r =
     (case response_json r of Inl e \<Rightarrow> Inl e | Inr b \<Rightarrow> subscript b ''data'')"

definition response_session :: "response \<Rightarrow> exn + json" where
  "response_session r =
     (case response_data r of Inl e \<Rightarrow> Inl e | Inr d \<Rightarrow> subscript d ''sessionId'')"

text \<open>\<^verbatim>\<open>Client.check_response\<close>: the three tests in the order of the \<^verbatim>\<open>if\<close>/\<^verbatim>\<open>elif\<close> chain.\<close>

definition check_response :: "'a client \<Rightarrow> response \<Rightarrow> exn + unit" where
  "check_response c r =
     (if status_code r \<noteq> 200 then Inl (ServerError (transport_message r))
      else
        (case error_code r of Inl e \<Rightarrow> Inl e
         | Inr code \<Rightarrow>
             if code \<noteq> JNull then
               (case error_message r of Inl e \<Rightarrow> Inl e | Inr m \<Rightarrow> Inl (ServerError m))
             else if truthy (session_id c) then
               (case response_session r of Inl e \<Rightarrow> Inl e
                | Inr sid \<Rightarrow>
                    if \<not> py_eq (session_id c) sid
                    then Inl (ServerError (JStr ''Invalid SessionID. ''))
                    else Inr ())
             else Inr ()))"

text \<open>
  \<^verbatim>\<open>Client.make_request\<close>: returns the result and the calls of \<^verbatim>\<open>requests.post\<close> made so
  far. It does not assign to \<^verbatim>\<open>self\<close>.
\<close>

definition make_request ::
  "transport \<Rightarrow> 'a client \<Rightarrow> request list \<Rightarrow> string \<Rightarrow> json \<Rightarrow> (exn + json) \<times> request list"
where
  "make_request post c w endpoint data =
     (let rq = (base_url c @ endpoint, data) in
      case post w rq of Inl e \<Rightarrow> (Inl e, w @ [rq])
      | Inr r \<Rightarrow>
          (case check_response c r of Inl e \<Rightarrow> (Inl e, w @ [rq])
           | Inr u \<Rightarrow> (response_data r, w @ [rq])))"

definition handshake_request :: "'a crypto \<Rightarrow> 'a client \<Rightarrow> json" where
  "handshake_request cr c =
     JObj [(''rsaKey'', rsa_public cr), (''encryption'', JBool (use_encryption c)),
           (''postCode'', JBool (use_verification c))]"

text \<open>
  The part of \<^verbatim>\<open>Client.connect\<close> after \<^verbatim>\<open>make_request\<close>: \<^verbatim>\<open>self.session_id\<close> is assigned
  first, then the two fields are decrypted and the cipher is built.
\<close>

definition install :: "'a crypto \<Rightarrow> 'a client \<Rightarrow> json \<Rightarrow> (exn + unit) \<times> 'a client" where
  "install cr c d =
     (case subscript d ''sessionId'' of Inl e \<Rightarrow> (Inl e, c)
      | Inr sid \<Rightarrow>
          (let c1 = c\<lparr>session_id := sid\<rparr> in
           case rsa_decrypt cr d [''aesKey'', ''ivector''] of Inl e \<Rightarrow> (Inl e, c1)
           | Inr d2 \<Rightarrow>
               (case subscript d2 ''aesKey'' of Inl e \<Rightarrow> (Inl e, c1)
                | Inr k \<Rightarrow>
                    (case subscript d2 ''ivector'' of Inl e \<Rightarrow> (Inl e, c1)
                     | Inr iv \<Rightarrow>
                         (case aes_new cr k iv of Inl e \<Rightarrow> (Inl e, c1)
                          | Inr a \<Rightarrow> (Inr (), c1\<lparr>aes := Some a\<rparr>))))))"

definition connect ::
  "'a crypto \<Rightarrow> transport \<Rightarrow> 'a client \<Rightarrow> request list \<Rightarrow> (exn + unit) \<times> 'a client \<times> request list"
where
  "connect cr post c w =
     (case make_request post c w ''rsakey'' (handshake_request cr c) of
        (Inl e, w') \<Rightarrow> (Inl e, c, w')
      | (Inr d, w') \<Rightarrow> (case install cr c d of (res, c') \<Rightarrow> (res, c', w')))"

text \<open>\<^verbatim>\<open>Client.encrypt\<close>: \<^verbatim>\<open>self.aes.encrypt\<close> on \<^verbatim>\<open>None\<close> is an \<open>AttributeError\<close>.\<close>

definition encrypt :: "'a crypto \<Rightarrow> 'a client \<Rightarrow> json \<Rightarrow> exn + json" where
  "encrypt cr c data =
     (if \<not> use_encryption c then Inr data
      else (case aes c of None \<Rightarrow> Inl AttributeError | Some a \<Rightarrow> aes_encrypt cr a data))"

text \<open>\<^verbatim>\<open>Client.build_token\<close>.\<close>

definition build_token :: "'a client \<Rightarrow> json \<Rightarrow> (exn + unit) \<times> 'a client" where
  "build_token c d =
     (case subscript d ''secret'' of Inl e \<Rightarrow> (Inl e, c)
      | Inr v \<Rightarrow> (case b64decode v of Inl e \<Rightarrow> (Inl e, c)
                 | Inr t \<Rightarrow> (Inr (), c\<lparr>secret := Some t\<rparr>)))"

definition login_request :: "'a client \<Rightarrow> json \<Rightarrow> json \<Rightarrow> json" where
  "login_request c el ep =
     JObj [(''sessionId'', session_id c), (''login'', el), (''password'', ep)]"

text \<open>
  \<^verbatim>\<open>Client.login\<close>: the dictionary is built first (both fields go through \<open>encrypt\<close>),
  then the request is made.
\<close>

definition login ::
  "'a crypto \<Rightarrow> transport \<Rightarrow> json \<Rightarrow> json \<Rightarrow> 'a client \<Rightarrow> request list
     \<Rightarrow> (exn + unit) \<times> 'a client \<times> request list"
where
  "login cr post lg pw c w =
     (case encrypt cr c lg of Inl e \<Rightarrow> (Inl e, c, w)
      | Inr el \<Rightarrow>
          (case encrypt cr c pw of Inl e \<Rightarrow> (Inl e, c, w)
           | Inr ep \<Rightarrow>
               (case make_request post c w ''login'' (login_request c el ep) of
                  (Inl e, w') \<Rightarrow> (Inl e, c, w')
                | (Inr d, w') \<Rightarrow>
                    if \<not> use_verification c
                    then (case build_token c d of (res, c') \<Rightarrow> (res, c', w'))
                    else (Inr (), c, w'))))"

definition verify_request :: "'a client \<Rightarrow> json \<Rightarrow> json" where
  "verify_request c ec = JObj [(''code'', ec), (''sessionId'', session_id c)]"

text \<open>\<^verbatim>\<open>Client.verify\<close>.\<close>

definition verify ::
  "'a crypto \<Rightarrow> transport \<Rightarrow> json \<Rightarrow> 'a client \<Rightarrow> request list
     \<Rightarrow> (exn + unit) \<times> 'a client \<times> request list"
where
  "verify cr post code c w =
     (case encrypt cr c code of Inl e \<Rightarrow> (Inl e, c, w)
      | Inr ec \<Rightarrow>
          (case make_request post c w ''verify'' (verify_request c ec) of
             (Inl e, w') \<Rightarrow> (Inl e, c, w')
           | (Inr d, w') \<Rightarrow> (case build_token c d of (res, c') \<Rightarrow> (res, c', w'))))"

section \<open>Concrete collaborators\<close>

text \<open>
  An instance of the two parameters, to run the client on explicit inputs. The toy
  RSA "decrypts" a string field by reversing it and raises on anything else; a toy
  cipher object is its key and vector, and "encrypts" a string by prefixing the key.
  \<open>route\<close> is a network that answers each URL with a fixed response.
\<close>

fun toy_rsa_decrypt :: "json \<Rightarrow> string list \<Rightarrow> exn + json" where
  "toy_rsa_decrypt d [] = Inr d"
| "toy_rsa_decrypt d (f # fs) =
     (case d of
        JObj kvs \<Rightarrow>
          (case map_of kvs f of
             Some (JStr s) \<Rightarrow> toy_rsa_decrypt (JObj ((f, JStr (rev s)) # kvs)) fs
           | _ \<Rightarrow> Inl (Raised ''DecryptionError''))
      | _ \<Rightarrow> Inl (Raised ''DecryptionError''))"

fun toy_aes_encrypt :: "json \<times> json \<Rightarrow> json \<Rightarrow> exn + json" where
  "toy_aes_encrypt (JStr k, iv) (JStr s) = Inr (JStr (k @ '':'' @ s))"
| "toy_aes_encrypt _ _ = Inl (Raised ''EncryptionError'')"

definition toy_crypto :: "(json \<times> json) crypto" where
  "toy_crypto =
     \<lparr>rsa_public = JStr ''PUB'', rsa_decrypt = toy_rsa_decrypt,
      aes_new = (\<lambda>k iv. Inr (k, iv)), aes_encrypt = toy_aes_encrypt\<rparr>"

definition route :: "(string \<times> response) list \<Rightarrow> transport" where
  "route table w rq =
     (case map_of table (fst rq) of None \<Rightarrow> Inl (Raised ''ConnectionError'') | Some r \<Rightarrow> Inr r)"

definition no_error :: json where
  "no_error = JObj [(''code'', JNull), (''message'', JNull)]"

definition ok :: "json \<Rightarrow> response" where
  "ok d = \<lparr>status_code = 200, reason = ''OK'',
           body = Some (JObj [(''data'', d), (''errorDto'', no_error)])\<rparr>"

definition handshake_data :: "string \<Rightarrow> json" where
  "handshake_data sid =
     JObj [(''sessionId'', JStr sid), (''aesKey'', JStr ''1YEK''), (''ivector'', JStr ''1VI'')]"

definition fresh :: "bool \<Rightarrow> bool \<Rightarrow> (json \<times> json) client" where
  "fresh enc ver = init ''http://h/'' enc ver"

definition established :: "string \<Rightarrow> bool \<Rightarrow> bool \<Rightarrow> (json \<times> json) client" where
  "established sid enc ver =
     (fresh enc ver)\<lparr>session_id := JStr sid, aes := Some (JStr ''KEY0'', JStr ''IV0'')\<rparr>"

definition failed_500 :: response where
  "failed_500 =
     \<lparr>status_code = 500, reason = ''Internal Server Error'',
      body = Some (JObj [(''data'', JNull),
               (''errorDto'', JObj [(''code'', JStr ''E42''), (''message'', JStr ''No such user'')])])\<rparr>"

definition business_error :: "string \<Rightarrow> response" where
  "business_error msg =
     \<lparr>status_code = 200, reason = ''OK'',
      body = Some (JObj [(''data'', JNull),
               (''errorDto'', JObj [(''code'', JStr ''E42''), (''message'', JStr msg)])])\<rparr>"

definition undecryptable :: "string \<Rightarrow> json" where
  "undecryptable sid =
     JObj [(''sessionId'', JStr sid), (''aesKey'', JNull), (''ivector'', JStr ''1VI'')]"

definition secret_data :: "string \<Rightarrow> string \<Rightarrow> json" where
  "secret_data sid b64 = JObj [(''sessionId'', JStr sid), (''secret'', JStr b64)]"

definition pending_data :: "string \<Rightarrow> json" where
  "pending_data sid = JObj [(''sessionId'', JStr sid), (''verification'', JStr ''pending'')]"

text \<open>
  Fixtures for the two flows: a server that answers the handshake with session
  \<^verbatim>\<open>"s1"\<close> and then hands out the secret at login (\<open>server_a\<close>), or only at
  verification (\<open>server_b\<close>); \<open>connected\<close> is the client after that handshake.
\<close>

definition server_a :: transport where
  "server_a =
     route [(''http://h/rsakey'', ok (handshake_data ''s1'')),
            (''http://h/login'', ok (secret_data ''s1'' ''c2VjcmV0''))]"

definition server_b :: transport where
  "server_b =
     route [(''http://h/rsakey'', ok (handshake_data ''s1'')),
            (''http://h/login'', ok (pending_data ''s1'')),
            (''http://h/verify'', ok (secret_data ''s1'' ''dG9rZW4=''))]"

definition connected :: "bool \<Rightarrow> bool \<Rightarrow> (json \<times> json) client" where
  "connected enc ver =
     (fresh enc ver)\<lparr>session_id := JStr ''s1'', aes := Some (JStr ''KEY1'', JStr ''IV1'')\<rparr>"

lemmas client_defs =
  connect_def install_def make_request_def check_response_def error_code_def
  error_message_def response_data_def response_session_def response_json_def
  handshake_request_def encrypt_def build_token_def login_def login_request_def
  verify_def verify_request_def

lemmas fixture_defs =
  toy_crypto_def route_def ok_def no_error_def handshake_data_def fresh_def
  established_def init_def undecryptable_def secret_data_def pending_data_def
  server_a_def server_b_def connected_def

declare b64decode.simps [simp del]

lemma str_int_500: "str_int 500 = ''500''"
  by code_simp

lemma b64decode_secret: "b64decode (JStr ''c2VjcmV0'') = Inr ''secret''"
  by code_simp

lemma b64decode_token: "b64decode (JStr ''dG9rZW4='') = Inr ''token''"
  by code_simp

section \<open>Response validation\<close>

lemma check_response_accept:
  assumes "status_code r = 200" and "error_code r = Inr JNull"
    and "\<not> truthy (session_id c) \<or> (\<exists>sid. response_session r = Inr sid \<and> py_eq (session_id c) sid)"
  shows "check_response c r = Inr ()"
  using assms by (auto simp: check_response_def)

lemma check_response_mismatch:
  assumes "status_code r = 200" and "error_code r = Inr JNull"
    and "truthy (session_id c)" and "response_session r = Inr sid"
    and "\<not> py_eq (session_id c) sid"
  shows "check_response c r = Inl (ServerError (JStr ''Invalid SessionID. ''))"
  using assms by (simp add: check_response_def)

text \<open>
  Claim C2. Once a session identity is stored, a response whose \<^verbatim>\<open>data.sessionId\<close>
  differs from it is rejected; the claim wants the rejection to be an error kind of its
  own. The code raises \<open>ServerError\<close> for it, the class it also raises for an error
  reported by the server: with identity \<^verbatim>\<open>"s1"\<close> stored, the response carrying
  \<^verbatim>\<open>"s2"\<close> and a business error whose message is \<^verbatim>\<open>'Invalid SessionID. '\<close> give the
  same exception.
\<close>

theorem session_mismatch_is_server_error:
  "check_response (established ''s1'' True False) (ok (handshake_data ''s2''))
     = Inl (ServerError (JStr ''Invalid SessionID. ''))
   \<and> check_response (established ''s1'' True False) (business_error ''Invalid SessionID. '')
     = Inl (ServerError (JStr ''Invalid SessionID. ''))"
  by (simp add: check_response_def error_code_def error_message_def response_session_def
      response_data_def response_json_def ok_def no_error_def handshake_data_def
      business_error_def established_def fresh_def init_def)

text \<open>
  Claim C3, as the code has it. A response whose status is not 200 is rejected by the
  first test, whatever its body says: the error code and the session identity of the
  body are not looked at, and the message is built from the HTTP status and reason,
  never taken from the body. The exception is a \<open>ServerError\<close>, the one class the
  module has, which it also raises for an error reported by the server.
\<close>

theorem transport_error_first:
  "status_code r \<noteq> 200 \<Longrightarrow>
   check_response c r =
     Inl (ServerError (JStr (''HTTP Response error: '' @ str_int (status_code r) @ '' '' @ reason r)))"
  by (simp add: check_response_def transport_message_def)

theorem transport_error_first_witness:
  "status_code failed_500 \<noteq> 200
   \<and> error_code failed_500 = Inr (JStr ''E42'')
   \<and> check_response (established ''s1'' True False) failed_500
       = Inl (ServerError (JStr ''HTTP Response error: 500 Internal Server Error''))"
proof -
  have ne: "status_code failed_500 \<noteq> 200"
    by (simp add: failed_500_def)
  have code: "error_code failed_500 = Inr (JStr ''E42'')"
    by (simp add: error_code_def response_json_def failed_500_def)
  note digits = str_int_500
  have "check_response (established ''s1'' True False) failed_500
          = Inl (ServerError (JStr (''HTTP Response error: '' @ str_int (status_code failed_500)
              @ '' '' @ reason failed_500)))"
    using transport_error_first [OF ne] .
  then show ?thesis
    using ne code digits by (simp add: failed_500_def)
qed

text \<open>
  The response with status 500 and error code \<^verbatim>\<open>E42\<close>, and a response with status 200
  whose server-reported error has the message \<^verbatim>\<open>'HTTP Response error: 500 Internal
  Server Error'\<close>: validation raises the same exception for both, so nothing tells the
  transport failure from the error reported by the server.
\<close>

theorem transport_error_same_exception:
  "status_code failed_500 \<noteq> 200
   \<and> error_code failed_500 = Inr (JStr ''E42'')
   \<and> check_response (established ''s1'' True False) failed_500
       = Inl (ServerError (JStr ''HTTP Response error: 500 Internal Server Error''))
   \<and> status_code (business_error ''HTTP Response error: 500 Internal Server Error'') = 200
   \<and> check_response (established ''s1'' True False)
         (business_error ''HTTP Response error: 500 Internal Server Error'')
       = Inl (ServerError (JStr ''HTTP Response error: 500 Internal Server Error''))"
  by (simp add: check_response_def transport_message_def error_code_def error_message_def
      response_json_def failed_500_def business_error_def str_int_500)

text \<open>
  Claim C10. The session test of the validation is guarded by the truth value of the
  stored identity. When the stored identity is the empty string, validation behaves as
  it does with no identity at all, and a response with status 200 and a null error
  code is accepted whatever its \<^verbatim>\<open>data.sessionId\<close> is.
\<close>

theorem empty_session_not_enforced:
  assumes "session_id c = JStr []"
  shows "check_response c r = check_response (c\<lparr>session_id := JNull\<rparr>) r
         \<and> (status_code r = 200 \<and> error_code r = Inr JNull \<longrightarrow> check_response c r = Inr ())"
  using assms by (simp add: check_response_def)

theorem empty_session_not_enforced_witness:
  "session_id (established [] True False) = JStr []
   \<and> response_session (ok (handshake_data ''s2'')) = Inr (JStr ''s2'')
   \<and> check_response (established [] True False) (ok (handshake_data ''s2'')) = Inr ()"
proof -
  have sid: "session_id (established [] True False) = JStr []"
    by (simp add: established_def)
  have st: "status_code (ok (handshake_data ''s2'')) = 200"
    by (simp add: ok_def)
  have code: "error_code (ok (handshake_data ''s2'')) = Inr JNull"
    by (simp add: error_code_def response_json_def ok_def no_error_def)
  have other: "response_session (ok (handshake_data ''s2'')) = Inr (JStr ''s2'')"
    by (simp add: response_session_def response_data_def response_json_def ok_def
        handshake_data_def)
  have "status_code (ok (handshake_data ''s2'')) = 200
          \<and> error_code (ok (handshake_data ''s2'')) = Inr JNull
        \<longrightarrow> check_response (established [] True False) (ok (handshake_data ''s2'')) = Inr ()"
    using empty_session_not_enforced [OF sid, of "ok (handshake_data ''s2'')"]
    by (rule conjunct2)
  with st code have "check_response (established [] True False) (ok (handshake_data ''s2'')) = Inr ()"
    by blast
  with sid other show ?thesis
    by blast
qed

section \<open>Requests\<close>

lemma make_request_log:
  "snd (make_request post c w endpoint data) = w @ [(base_url c @ endpoint, data)]"
  by (simp add: make_request_def Let_def split: sum.splits)

lemma make_request_accept:
  assumes "post w (base_url c @ endpoint, data) = Inr r"
    and "check_response c r = Inr ()"
  shows "make_request post c w endpoint data
           = (response_data r, w @ [(base_url c @ endpoint, data)])"
  using assms by (simp add: make_request_def)

lemma make_request_reject:
  assumes "post w (base_url c @ endpoint, data) = Inr r"
    and "check_response c r = Inl e"
  shows "make_request post c w endpoint data = (Inl e, w @ [(base_url c @ endpoint, data)])"
  using assms by (simp add: make_request_def)

section \<open>The handshake\<close>

lemma install_failure:
  assumes "install cr c d = (Inl e, c')"
  shows "aes c' = aes c
         \<and> (case subscript d ''sessionId'' of
               Inl e2 \<Rightarrow> c' = c
             | Inr sid \<Rightarrow> c' = c\<lparr>session_id := sid\<rparr>)"
  using assms by (auto simp: install_def Let_def split: sum.splits)

lemma install_success:
  assumes "subscript d ''sessionId'' = Inr sid"
    and "rsa_decrypt cr d [''aesKey'', ''ivector''] = Inr d2"
    and "subscript d2 ''aesKey'' = Inr k" and "subscript d2 ''ivector'' = Inr iv"
    and "aes_new cr k iv = Inr a"
  shows "install cr c d = (Inr (), c\<lparr>session_id := sid, aes := Some a\<rparr>)"
  using assms by (simp add: install_def)

text \<open>
  Claim C1, as the code has it. When \<open>connect\<close> fails, no cipher is installed:
  \<open>aes\<close> is what it was before the call. When the request or the validation of the
  response fails, or the response data has no \<^verbatim>\<open>sessionId\<close>, the client is exactly as
  before the call. The one other case is a failure after the response was accepted
  (decrypting the two fields, or building the cipher): then \<open>session_id\<close> already holds
  the \<^verbatim>\<open>sessionId\<close> of the response, and nothing else has changed.
\<close>

theorem connect_failure_state:
  assumes "connect cr post c w = (Inl e, c', w')"
  shows "aes c' = aes c
         \<and> (\<forall>e1. fst (make_request post c w ''rsakey'' (handshake_request cr c)) = Inl e1
                \<longrightarrow> c' = c)
         \<and> (\<forall>d e2. fst (make_request post c w ''rsakey'' (handshake_request cr c)) = Inr d
                  \<and> subscript d ''sessionId'' = Inl e2
                \<longrightarrow> c' = c)
         \<and> (\<forall>d sid. fst (make_request post c w ''rsakey'' (handshake_request cr c)) = Inr d
                  \<and> subscript d ''sessionId'' = Inr sid
                \<longrightarrow> c' = c\<lparr>session_id := sid\<rparr>)"
proof (cases "make_request post c w ''rsakey'' (handshake_request cr c)")
  case (Pair res w1)
  show ?thesis
  proof (cases res)
    case (Inl e1)
    with Pair assms have "c' = c"
      by (simp add: connect_def)
    with Pair Inl show ?thesis
      by simp
  next
    case (Inr d)
    with Pair assms have inst: "install cr c d = (Inl e, c')"
      by (auto simp: connect_def split: prod.splits)
    from install_failure [OF inst] Pair Inr show ?thesis
      by (auto split: sum.splits)
  qed
qed

text \<open>
  Status 500 on the handshake: the error is raised and the fresh client is untouched.
  An accepted response with \<^verbatim>\<open>sessionId\<close> \<^verbatim>\<open>"s1"\<close> whose \<^verbatim>\<open>aesKey\<close> cannot be decrypted:
  the client is the fresh one with \<open>session_id\<close> set to \<^verbatim>\<open>"s1"\<close>, and still no cipher.
\<close>

theorem connect_failure_state_witness:
  "connect toy_crypto (route [(''http://h/rsakey'', failed_500)]) (fresh True False) []
     = (Inl (ServerError (transport_message failed_500)), fresh True False,
        [(''http://h/rsakey'', handshake_request toy_crypto (fresh True False))])
   \<and> aes (fresh True False) = None \<and> session_id (fresh True False) = JNull
   \<and> fst (snd (connect toy_crypto (route [(''http://h/rsakey'', ok (undecryptable ''s1''))])
          (fresh True False) []))
       = (fresh True False)\<lparr>session_id := JStr ''s1''\<rparr>
   \<and> aes (fst (snd (connect toy_crypto (route [(''http://h/rsakey'', ok (undecryptable ''s1''))])
          (fresh True False) []))) = None"
proof -
  let ?c = "fresh True False"
  let ?p1 = "route [(''http://h/rsakey'', failed_500)]"
  let ?p2 = "route [(''http://h/rsakey'', ok (undecryptable ''s1''))]"
  let ?rq = "(''http://h/rsakey'', handshake_request toy_crypto ?c)"
  have none: "aes ?c = None" and unset: "session_id ?c = JNull"
    by (simp_all add: fresh_def init_def)
  have run1: "connect toy_crypto ?p1 ?c []
                = (Inl (ServerError (transport_message failed_500)), ?c, [?rq])"
    by (simp add: connect_def make_request_def check_response_def route_def fresh_def init_def
        failed_500_def)
  have rejected: "fst (make_request ?p1 ?c [] ''rsakey'' (handshake_request toy_crypto ?c))
                    = Inl (ServerError (transport_message failed_500))"
    by (simp add: make_request_def check_response_def route_def fresh_def init_def
        failed_500_def)
  from connect_failure_state [OF run1] rejected have same: "aes ?c = aes ?c \<and> ?c = ?c"
    by blast
  have "fst (connect toy_crypto ?p2 ?c []) = Inl (Raised ''DecryptionError'')"
    by (simp add: client_defs fixture_defs)
  then have run2: "connect toy_crypto ?p2 ?c []
      = (Inl (Raised ''DecryptionError''), fst (snd (connect toy_crypto ?p2 ?c [])),
         snd (snd (connect toy_crypto ?p2 ?c [])))"
    by (metis prod.collapse)
  have accepted: "fst (make_request ?p2 ?c [] ''rsakey'' (handshake_request toy_crypto ?c))
                    = Inr (undecryptable ''s1'')"
    by (simp add: client_defs fixture_defs)
  have sid: "subscript (undecryptable ''s1'') ''sessionId'' = Inr (JStr ''s1'')"
    by (simp add: fixture_defs)
  from connect_failure_state [OF run2] accepted sid
  have "aes (fst (snd (connect toy_crypto ?p2 ?c []))) = aes ?c
        \<and> fst (snd (connect toy_crypto ?p2 ?c [])) = ?c\<lparr>session_id := JStr ''s1''\<rparr>"
    by blast
  with run1 none unset same show ?thesis
    by simp
qed

text \<open>
  A fresh client, a handshake response that validation accepts with \<^verbatim>\<open>sessionId\<close>
  \<^verbatim>\<open>"s1"\<close>, and an \<^verbatim>\<open>aesKey\<close> that cannot be decrypted: \<open>connect\<close> fails and the client
  is left with the session identity \<^verbatim>\<open>"s1"\<close>.
\<close>

theorem connect_failure_keeps_session_id:
  "fst (connect toy_crypto (route [(''http://h/rsakey'', ok (undecryptable ''s1''))])
          (fresh True False) []) = Inl (Raised ''DecryptionError'')
   \<and> session_id (fst (snd (connect toy_crypto
          (route [(''http://h/rsakey'', ok (undecryptable ''s1''))]) (fresh True False) [])))
       = JStr ''s1''
   \<and> session_id (fresh True False) = JNull"
  by (simp add: client_defs fixture_defs)

section \<open>Login and verification\<close>

lemma make_request_cases:
  "make_request post c w endpoint data = (res, w') \<Longrightarrow> w' = w @ [(base_url c @ endpoint, data)]"
  using make_request_log [of post c w endpoint data] by simp

lemma login_sent:
  "snd (snd (login cr post lg pw c w)) =
     (case encrypt cr c lg of Inl e \<Rightarrow> w
      | Inr el \<Rightarrow> (case encrypt cr c pw of Inl e \<Rightarrow> w
                  | Inr ep \<Rightarrow> w @ [(base_url c @ ''login'', login_request c el ep)]))"
  by (auto simp: login_def split: sum.splits prod.splits dest: make_request_cases)








lemma build_token_success:
  "subscript d ''secret'' = Inr v \<Longrightarrow> b64decode v = Inr t \<Longrightarrow>
   build_token c d = (Inr (), c\<lparr>secret := Some t\<rparr>)"
  by (simp add: build_token_def)


lemma login_keeps_client:
  "use_verification c \<Longrightarrow> fst (snd (login cr post lg pw c w)) = c"
  by (auto simp: login_def split: sum.splits prod.splits)

text \<open>
  Claim C4, as the code has it. \<open>login\<close> tests nothing before it starts. On a client
  with no cipher installed (no \<open>connect\<close> has succeeded) and the encryption switch on,
  it fails with \<open>AttributeError\<close> on the first field, before any request, and the
  client is unchanged. With the switch off the request is sent.
\<close>

theorem login_without_cipher:
  assumes "aes c = None"
  shows "(use_encryption c \<longrightarrow> login cr post lg pw c w = (Inl AttributeError, c, w))
         \<and> (\<not> use_encryption c \<longrightarrow>
              snd (snd (login cr post lg pw c w))
                = w @ [(base_url c @ ''login'', login_request c lg pw)])"
  using assms by (simp add: login_sent) (simp add: login_def encrypt_def)

theorem login_without_cipher_witness:
  "aes (fresh True False) = None \<and> use_encryption (fresh True False)
   \<and> login toy_crypto server_a (JStr ''alice'') (JStr ''pw'') (fresh True False) []
       = (Inl AttributeError, fresh True False, [])"
proof -
  have none: "aes (fresh True False) = None" and enc: "use_encryption (fresh True False)"
    by (simp_all add: fresh_def init_def)
  have "use_encryption (fresh True False) \<longrightarrow>
        login toy_crypto server_a (JStr ''alice'') (JStr ''pw'') (fresh True False) []
          = (Inl AttributeError, fresh True False, [])"
    using login_without_cipher [OF none, of toy_crypto server_a "JStr ''alice''" "JStr ''pw''" "[]"]
    by (rule conjunct1)
  with none enc show ?thesis
    by blast
qed

text \<open>
  A client that never connected, with the encryption switch off: \<open>login\<close> posts the
  request (with \<^verbatim>\<open>sessionId\<close> \<^verbatim>\<open>None\<close>) and, the server answering with a secret, succeeds.
\<close>

theorem login_before_connect_sends:
  "login toy_crypto server_a (JStr ''alice'') (JStr ''pw'') (fresh False False) []
     = (Inr (), (fresh False False)\<lparr>secret := Some ''secret''\<rparr>,
        [(''http://h/login'',
          JObj [(''sessionId'', JNull), (''login'', JStr ''alice''), (''password'', JStr ''pw'')])])"
  by (simp add: client_defs fixture_defs b64decode_secret)




lemma login_success:
  assumes "encrypt cr c lg = Inr el" and "encrypt cr c pw = Inr ep"
    and "post w (base_url c @ ''login'', login_request c el ep) = Inr r"
    and "check_response c r = Inr ()" and "response_data r = Inr d"
  shows "login cr post lg pw c w =
           (if \<not> use_verification c
            then (fst (build_token c d), snd (build_token c d),
                  w @ [(base_url c @ ''login'', login_request c el ep)])
            else (Inr (), c, w @ [(base_url c @ ''login'', login_request c el ep)]))"
  using assms by (simp add: login_def make_request_accept split: prod.splits)

lemma verify_success:
  assumes "encrypt cr c code = Inr ec"
    and "post w (base_url c @ ''verify'', verify_request c ec) = Inr r"
    and "check_response c r = Inr ()" and "response_data r = Inr d"
  shows "verify cr post code c w =
           (fst (build_token c d), snd (build_token c d),
            w @ [(base_url c @ ''verify'', verify_request c ec)])"
  using assms by (simp add: verify_def make_request_accept split: prod.splits)

text \<open>
  Claim C6. With verification not required, a login whose fields are encrypted
  without error, whose response is accepted by the validation and whose response data
  has a \<^verbatim>\<open>secret\<close> that decodes as base64, returns normally and leaves the decoded bytes
  in \<open>secret\<close> (the token is set: the session is authenticated); one request was
  sent, and nothing else of the client has changed.
\<close>

theorem login_sets_token:
  assumes "\<not> use_verification c"
    and "encrypt cr c lg = Inr el" and "encrypt cr c pw = Inr ep"
    and "post w (base_url c @ ''login'', login_request c el ep) = Inr r"
    and "check_response c r = Inr ()" and "response_data r = Inr d"
    and "subscript d ''secret'' = Inr v" and "b64decode v = Inr t"
  shows "login cr post lg pw c w =
           (Inr (), c\<lparr>secret := Some t\<rparr>, w @ [(base_url c @ ''login'', login_request c el ep)])"
  using assms by (simp add: login_success build_token_success)

text \<open>
  Scenario A: after the handshake with session \<^verbatim>\<open>"s1"\<close>, \<^verbatim>\<open>login("alice", "pw")\<close> sends
  the two fields encrypted, the server answers \<^verbatim>\<open>secret="c2VjcmV0"\<close>, and the token is
  \<^verbatim>\<open>b"secret"\<close>.
\<close>

theorem login_sets_token_witness:
  "connect toy_crypto server_a (fresh True False) []
     = (Inr (), connected True False,
        [(''http://h/rsakey'', handshake_request toy_crypto (fresh True False))])
   \<and> login toy_crypto server_a (JStr ''alice'') (JStr ''pw'') (connected True False)
         [(''http://h/rsakey'', handshake_request toy_crypto (fresh True False))]
     = (Inr (), (connected True False)\<lparr>secret := Some ''secret''\<rparr>,
        [(''http://h/rsakey'', handshake_request toy_crypto (fresh True False)),
         (''http://h/login'',
          JObj [(''sessionId'', JStr ''s1''), (''login'', JStr ''KEY1:alice''),
                (''password'', JStr ''KEY1:pw'')])])"
proof -
  let ?c = "connected True False"
  let ?w = "[(''http://h/rsakey'', handshake_request toy_crypto (fresh True False))]"
  let ?r = "ok (secret_data ''s1'' ''c2VjcmV0'')"
  have handshake: "connect toy_crypto server_a (fresh True False) [] = (Inr (), ?c, ?w)"
    by (simp add: client_defs fixture_defs)
  have nv: "\<not> use_verification ?c"
    by (simp add: fixture_defs)
  have el: "encrypt toy_crypto ?c (JStr ''alice'') = Inr (JStr ''KEY1:alice'')"
    and ep: "encrypt toy_crypto ?c (JStr ''pw'') = Inr (JStr ''KEY1:pw'')"
    by (simp_all add: encrypt_def fixture_defs)
  have post: "server_a ?w (base_url ?c @ ''login'',
                login_request ?c (JStr ''KEY1:alice'') (JStr ''KEY1:pw'')) = Inr ?r"
    by (simp add: fixture_defs)
  have chk: "check_response ?c ?r = Inr ()"
    by (simp add: client_defs fixture_defs)
  have dat: "response_data ?r = Inr (secret_data ''s1'' ''c2VjcmV0'')"
    by (simp add: client_defs fixture_defs)
  have sec: "subscript (secret_data ''s1'' ''c2VjcmV0'') ''secret'' = Inr (JStr ''c2VjcmV0'')"
    by (simp add: fixture_defs)
  have "login toy_crypto server_a (JStr ''alice'') (JStr ''pw'') ?c ?w
          = (Inr (), ?c\<lparr>secret := Some ''secret''\<rparr>,
             ?w @ [(base_url ?c @ ''login'',
                    login_request ?c (JStr ''KEY1:alice'') (JStr ''KEY1:pw''))])"
    using login_sets_token [where post = server_a and w = ?w,
        OF nv el ep post chk dat sec b64decode_secret] .
  then show ?thesis
    using handshake by (simp add: login_request_def fixture_defs)
qed

text \<open>
  Claim C7. With verification required, a login that returns normally has not touched
  the client, so the token is as it was (unset, if it was unset). A verification that
  follows, whose code is encrypted without error, whose response is accepted by the
  validation and whose response data has a \<^verbatim>\<open>secret\<close> that decodes as base64, returns
  normally and leaves the decoded bytes in \<open>secret\<close>.
\<close>

theorem verification_flow:
  assumes "use_verification c"
    and "login cr post lg pw c w = (Inr (), c1, w1)"
    and "encrypt cr c1 code = Inr ec"
    and "post w1 (base_url c1 @ ''verify'', verify_request c1 ec) = Inr r"
    and "check_response c1 r = Inr ()" and "response_data r = Inr d"
    and "subscript d ''secret'' = Inr v" and "b64decode v = Inr t"
  shows "c1 = c \<and> secret c1 = secret c
         \<and> verify cr post code c1 w1 =
             (Inr (), c\<lparr>secret := Some t\<rparr>, w1 @ [(base_url c @ ''verify'', verify_request c ec)])"
proof -
  have "fst (snd (login cr post lg pw c w)) = c"
    using assms(1) by (rule login_keeps_client)
  with assms(2) have same: "c1 = c"
    by simp
  with assms(3-8) have "verify cr post code c w1 =
      (Inr (), c\<lparr>secret := Some t\<rparr>, w1 @ [(base_url c @ ''verify'', verify_request c ec)])"
    by (simp add: verify_success build_token_success)
  with same show ?thesis
    by simp
qed

text \<open>
  Scenario B: the handshake asks for verification, the login response has no
  \<^verbatim>\<open>secret\<close> and leaves the token unset, \<^verbatim>\<open>verify("123456")\<close> is answered with
  \<^verbatim>\<open>secret="dG9rZW4="\<close>, and the token is \<^verbatim>\<open>b"token"\<close>.
\<close>

theorem verification_flow_witness:
  "login toy_crypto server_b (JStr ''alice'') (JStr ''pw'') (connected True True) []
     = (Inr (), connected True True,
        [(''http://h/login'',
          JObj [(''sessionId'', JStr ''s1''), (''login'', JStr ''KEY1:alice''),
                (''password'', JStr ''KEY1:pw'')])])
   \<and> secret (connected True True) = None
   \<and> verify toy_crypto server_b (JStr ''123456'') (connected True True)
         [(''http://h/login'',
           JObj [(''sessionId'', JStr ''s1''), (''login'', JStr ''KEY1:alice''),
                 (''password'', JStr ''KEY1:pw'')])]
     = (Inr (), (connected True True)\<lparr>secret := Some ''token''\<rparr>,
        [(''http://h/login'',
          JObj [(''sessionId'', JStr ''s1''), (''login'', JStr ''KEY1:alice''),
                (''password'', JStr ''KEY1:pw'')]),
         (''http://h/verify'',
          JObj [(''code'', JStr ''KEY1:123456''), (''sessionId'', JStr ''s1'')])])"
proof -
  let ?c = "connected True True"
  let ?w = "[(''http://h/login'',
              JObj [(''sessionId'', JStr ''s1''), (''login'', JStr ''KEY1:alice''),
                    (''password'', JStr ''KEY1:pw'')])]"
  let ?r = "ok (secret_data ''s1'' ''dG9rZW4='')"
  have uv: "use_verification ?c" and unset: "secret ?c = None"
    by (simp_all add: fixture_defs)
  have lg: "login toy_crypto server_b (JStr ''alice'') (JStr ''pw'') ?c [] = (Inr (), ?c, ?w)"
    by (simp add: client_defs fixture_defs)
  have ec: "encrypt toy_crypto ?c (JStr ''123456'') = Inr (JStr ''KEY1:123456'')"
    by (simp add: encrypt_def fixture_defs)
  have post: "server_b ?w (base_url ?c @ ''verify'', verify_request ?c (JStr ''KEY1:123456''))
                = Inr ?r"
    by (simp add: fixture_defs)
  have chk: "check_response ?c ?r = Inr ()"
    by (simp add: client_defs fixture_defs)
  have dat: "response_data ?r = Inr (secret_data ''s1'' ''dG9rZW4='')"
    by (simp add: client_defs fixture_defs)
  have sec: "subscript (secret_data ''s1'' ''dG9rZW4='') ''secret'' = Inr (JStr ''dG9rZW4='')"
    by (simp add: fixture_defs)
  have "?c = ?c \<and> secret ?c = secret ?c
        \<and> verify toy_crypto server_b (JStr ''123456'') ?c ?w =
            (Inr (), ?c\<lparr>secret := Some ''token''\<rparr>,
             ?w @ [(base_url ?c @ ''verify'', verify_request ?c (JStr ''KEY1:123456''))])"
    using verification_flow [OF uv lg ec post chk dat sec b64decode_token] .
  then show ?thesis
    using lg unset by (simp add: verify_request_def fixture_defs)
qed



section \<open>Connecting again\<close>

text \<open>
  Claim C9, as the code has it. The response to a second handshake goes through the
  same validation as any other. When it is well formed and its material decrypts,
  \<open>connect\<close> succeeds, and stores the identity of the response and the cipher built
  from the new material in place of the old ones, if the stored identity counts as
  false (\<^verbatim>\<open>None\<close>, the empty string) or equals the \<^verbatim>\<open>sessionId\<close> of the response. When the
  stored identity counts as true and differs from it, \<open>connect\<close> fails with
  \<^verbatim>\<open>ServerError('Invalid SessionID. ')\<close> and keeps the old identity and the old cipher.
\<close>

theorem reconnect:
  assumes "post w (base_url c @ ''rsakey'', handshake_request cr c) = Inr r"
    and "status_code r = 200" and "error_code r = Inr JNull"
    and "response_data r = Inr d" and "subscript d ''sessionId'' = Inr sid"
    and "rsa_decrypt cr d [''aesKey'', ''ivector''] = Inr d2"
    and "subscript d2 ''aesKey'' = Inr k" and "subscript d2 ''ivector'' = Inr iv"
    and "aes_new cr k iv = Inr a"
  shows "connect cr post c w =
           (if \<not> truthy (session_id c) \<or> py_eq (session_id c) sid
            then (Inr (), c\<lparr>session_id := sid, aes := Some a\<rparr>,
                  w @ [(base_url c @ ''rsakey'', handshake_request cr c)])
            else (Inl (ServerError (JStr ''Invalid SessionID. '')), c,
                  w @ [(base_url c @ ''rsakey'', handshake_request cr c)]))"
proof (cases "\<not> truthy (session_id c) \<or> py_eq (session_id c) sid")
  case True
  have rs: "response_session r = Inr sid"
    using assms(4,5) by (simp add: response_session_def)
  have "check_response c r = Inr ()"
    using assms(2,3) rs True by (intro check_response_accept) auto
  with assms(1) have "make_request post c w ''rsakey'' (handshake_request cr c)
      = (response_data r, w @ [(base_url c @ ''rsakey'', handshake_request cr c)])"
    by (rule make_request_accept)
  with assms(4) True install_success [OF assms(5-9), of c] show ?thesis
    by (simp add: connect_def)
next
  case False
  then have tr: "truthy (session_id c)" and ne: "\<not> py_eq (session_id c) sid"
    by simp_all
  have rs: "response_session r = Inr sid"
    using assms(4,5) by (simp add: response_session_def)
  have "check_response c r = Inl (ServerError (JStr ''Invalid SessionID. ''))"
    using assms(2,3) tr rs ne by (rule check_response_mismatch)
  with assms(1) have "make_request post c w ''rsakey'' (handshake_request cr c)
      = (Inl (ServerError (JStr ''Invalid SessionID. '')),
         w @ [(base_url c @ ''rsakey'', handshake_request cr c)])"
    by (rule make_request_reject)
  with False show ?thesis
    by (simp add: connect_def)
qed

text \<open>
  The server answers the second handshake with the stored identity \<^verbatim>\<open>"s1"\<close>: the
  cipher of key \<^verbatim>\<open>KEY0\<close> is replaced by the cipher of key \<^verbatim>\<open>KEY1\<close>.
\<close>

theorem reconnect_witness:
  "aes (established ''s1'' True False) = Some (JStr ''KEY0'', JStr ''IV0'')
   \<and> connect toy_crypto server_a (established ''s1'' True False) []
     = (Inr (), (established ''s1'' True False)\<lparr>aes := Some (JStr ''KEY1'', JStr ''IV1'')\<rparr>,
        [(''http://h/rsakey'', handshake_request toy_crypto (established ''s1'' True False))])"
proof -
  let ?c = "established ''s1'' True False"
  let ?r = "ok (handshake_data ''s1'')"
  let ?d2 = "JObj [(''ivector'', JStr ''IV1''), (''aesKey'', JStr ''KEY1''),
                   (''sessionId'', JStr ''s1''), (''aesKey'', JStr ''1YEK''),
                   (''ivector'', JStr ''1VI'')]"
  have old: "aes ?c = Some (JStr ''KEY0'', JStr ''IV0'')"
    by (simp add: fixture_defs)
  have post: "server_a [] (base_url ?c @ ''rsakey'', handshake_request toy_crypto ?c) = Inr ?r"
    by (simp add: fixture_defs)
  have st: "status_code ?r = 200" and code: "error_code ?r = Inr JNull"
    and dat: "response_data ?r = Inr (handshake_data ''s1'')"
    by (simp_all add: client_defs fixture_defs)
  have sid: "subscript (handshake_data ''s1'') ''sessionId'' = Inr (JStr ''s1'')"
    by (simp add: fixture_defs)
  have dec: "rsa_decrypt toy_crypto (handshake_data ''s1'') [''aesKey'', ''ivector''] = Inr ?d2"
    by (simp add: fixture_defs)
  have k: "subscript ?d2 ''aesKey'' = Inr (JStr ''KEY1'')"
    and iv: "subscript ?d2 ''ivector'' = Inr (JStr ''IV1'')"
    by simp_all
  have new: "aes_new toy_crypto (JStr ''KEY1'') (JStr ''IV1'') = Inr (JStr ''KEY1'', JStr ''IV1'')"
    by (simp add: fixture_defs)
  have "connect toy_crypto server_a ?c [] =
          (if \<not> truthy (session_id ?c) \<or> py_eq (session_id ?c) (JStr ''s1'')
           then (Inr (), ?c\<lparr>session_id := JStr ''s1'', aes := Some (JStr ''KEY1'', JStr ''IV1'')\<rparr>,
                 [] @ [(base_url ?c @ ''rsakey'', handshake_request toy_crypto ?c)])
           else (Inl (ServerError (JStr ''Invalid SessionID. '')), ?c,
                 [] @ [(base_url ?c @ ''rsakey'', handshake_request toy_crypto ?c)]))"
    using reconnect [where post = server_a and w = "[]", OF post st code dat sid dec k iv new] .
  then show ?thesis
    using old by (simp add: fixture_defs)
qed

text \<open>
  The server answers the second handshake with a new identity \<^verbatim>\<open>"s2"\<close>: \<open>connect\<close>
  fails and the client still holds identity \<^verbatim>\<open>"s1"\<close> and its old cipher.
\<close>

theorem reconnect_new_session_rejected:
  "connect toy_crypto (route [(''http://h/rsakey'', ok (handshake_data ''s2''))])
     (established ''s1'' True False) []
     = (Inl (ServerError (JStr ''Invalid SessionID. '')), established ''s1'' True False,
        [(''http://h/rsakey'', handshake_request toy_crypto (established ''s1'' True False))])"
  by (simp add: client_defs fixture_defs)

end
